theory Spec2Isabelle
  imports Complex_Main "HOL-Library.Word" "HOL-Library.Log_Nat"
begin

section \<open>Vector addition on an accelerator (vAdd\_hip.cpp)\<close>

text \<open>
  The program of \<^verbatim>\<open>src/HIP/with_mpi/vAdd_hip.cpp\<close>: every MPI process seeds two
  host arrays, adds them elementwise on its device, checks the mean of the result and
  takes part in two MAX reductions.  The array length \<open>N\<close> is a constant of the source
  (\<open>256*1024*1024\<close>); here it is a parameter, and \<open>N_ref\<close> is the source's value.
\<close>

subsection \<open>Integer types and conversions\<close>

text \<open>
  \<open>N\<close> is a \<^verbatim>\<open>long long int\<close> on the host and is given as an \<open>int\<close> with the range
  written in the hypotheses.  The kernel's parameter \<^verbatim>\<open>int n\<close> and the built-in
  coordinates (\<^verbatim>\<open>unsigned int\<close>) are 32-bit words.
\<close>

definition N_ref :: int where
  "N_ref = 256 * 1024 * 1024"

text \<open>Passing the \<^verbatim>\<open>long long\<close> \<open>N\<close> for the parameter \<^verbatim>\<open>int n\<close> keeps the low 32 bits.\<close>

definition int_of_ll :: "int \<Rightarrow> 32 word" where
  "int_of_ll N = word_of_int N"

text \<open>
  \<^verbatim>\<open>float(N)\<close>: the nearest value with a 24-bit significand, ties to the even
  significand (the default rounding of IEEE 754 binary32).  The result of converting an
  integer is again an integer, so it is given as an \<open>int\<close>.
\<close>

definition float_of_ll :: "int \<Rightarrow> int" where
  "float_of_ll N =
     (let m = \<bar>N\<bar>; e = bitlen m - 24 in
      if e \<le> 0 then N
      else
        let u = 2 ^ nat e; q = m div u; r = m mod u;
            q' = (if 2 * r < u \<or> (2 * r = u \<and> even q) then q else q + 1)
        in sgn N * (q' * u))"

subsection \<open>Execution configuration\<close>

definition thr_per_blk :: int where
  "thr_per_blk = 256"

text \<open>
  \<^verbatim>\<open>int blk_in_grid = ceil( float(N) / thr_per_blk )\<close>.  The division is a binary32
  division by a power of two and hence exact; so is \<open>ceil\<close>.
\<close>

definition blk_in_grid :: "int \<Rightarrow> int" where
  "blk_in_grid N = \<lceil>(of_int (float_of_ll N) :: rat) / of_int thr_per_blk\<rceil>"

subsection \<open>The kernel\<close>

text \<open>
  A device buffer is the memory reached from its base pointer, indexed by element
  offset; offsets outside \<open>[0, N)\<close> lie outside the allocation.  The three buffers are
  separate allocations.
\<close>

type_synonym 'a buffer = "int \<Rightarrow> 'a"

record work_item =
  blockDim_x :: "32 word"
  blockIdx_x :: "32 word"
  threadIdx_x :: "32 word"

text \<open>\<^verbatim>\<open>int id = blockDim.x * blockIdx.x + threadIdx.x\<close>: unsigned arithmetic, read as \<open>int\<close>.\<close>

definition global_id :: "work_item \<Rightarrow> 32 word" where
  "global_id w = blockDim_x w * blockIdx_x w + threadIdx_x w"

definition add_vectors ::
  "('a::plus) buffer \<Rightarrow> 'a buffer \<Rightarrow> 'a buffer \<Rightarrow> 32 word \<Rightarrow> work_item \<Rightarrow> 'a buffer" where
  "add_vectors a b c n w =
     (let id = global_id w in
      if sint id < sint n then c(sint id := a (sint id) + b (sint id)) else c)"

text \<open>
  The work-items of a launch with \<open>g\<close> groups of \<open>t\<close> threads.  No work-item reads
  what another writes, so any order of execution gives the same memory; the launch runs
  them in a given order \<open>ws\<close>.
\<close>

definition work_items :: "nat \<Rightarrow> nat \<Rightarrow> work_item list" where
  "work_items g t =
     concat (map (\<lambda>blk. map (\<lambda>thr.
       \<lparr>blockDim_x = of_nat t, blockIdx_x = of_nat blk, threadIdx_x = of_nat thr\<rparr>) [0..<t]) [0..<g])"

definition launch ::
  "work_item list \<Rightarrow> ('a::plus) buffer \<Rightarrow> 'a buffer \<Rightarrow> 'a buffer \<Rightarrow> 32 word \<Rightarrow> 'a buffer" where
  "launch ws a b c n = foldl (\<lambda>c' w. add_vectors a b c' n w) c ws"

text \<open>
  \<^verbatim>\<open>hipLaunchKernelGGL(add_vectors, dim3(blk_in_grid), dim3(thr_per_blk), 0, 0, d_A, d_B, d_C, N)\<close>
\<close>

definition device_add :: "int \<Rightarrow> ('a::plus) buffer \<Rightarrow> 'a buffer \<Rightarrow> 'a buffer \<Rightarrow> 'a buffer" where
  "device_add N a b c =
     launch (work_items (nat (blk_in_grid N)) (nat thr_per_blk)) a b c (int_of_ll N)"

subsection \<open>Double-precision values and the C library\<close>

text \<open>
  The type \<open>'d\<close> stands for \<^verbatim>\<open>double\<close> (and for the \<^verbatim>\<open>float\<close> \<open>milliseconds\<close>, whose
  values convert to \<open>double\<close> unchanged).  \<open>+\<close>, \<open>-\<close>, \<open>*\<close>, \<open>/\<close>, \<open>abs\<close> and \<open><\<close> are
  the machine operations: no law of arithmetic is assumed of them.  Conversions,
  literals and library functions are given by the environment of the process.
\<close>

datatype hipError_t = hipSuccess | hipErrorInvalidValue | hipErrorOutOfMemory | hipErrorUnknown

datatype dev_ptr = d_A | d_B | d_C

datatype hipEvent_t = ev_start | ev_end

datatype hip_call =
    hipMalloc dev_ptr
  | hipMemcpyHostToDevice dev_ptr
  | hipMemcpyDeviceToHost dev_ptr
  | hipEventCreate hipEvent_t
  | hipEventRecord hipEvent_t
  | hipEventSynchronize hipEvent_t
  | hipEventElapsedTime
  | hipEventDestroy hipEvent_t
  | hipLaunchKernelGGL
  | hipFree dev_ptr

text \<open>What the process does to the outside, in order.\<close>

datatype 'd event =
    Print_ranks int
  | Print_HIP_Error nat hipError_t
  | Print_Test_failed int
  | Print_report 'd 'd 'd int 'd 'd
  | Hip hip_call
  | MPI_Reduce_MAX_float 'd
  | MPI_Reduce_MAX_double 'd
  | Free_host
  | MPI_Finalize

text \<open>
  Everything the process takes from outside: its rank and the group size, the status
  each device call returns (by the source line of the call), the clock, \<open>rand\<close>, the
  library functions and conversions to \<open>double\<close> (of an integer value, and of a decimal
  literal that is not an integer), the contents of fresh memory, the elapsed time the
  device reports, and what the other processes contribute to the two reductions.
\<close>

record 'd env =
  rank :: int
  mpi_size :: int
  hip_ret :: "nat \<Rightarrow> hipError_t"
  wtime_start :: 'd
  wtime_end :: 'd
  rand_out :: "nat \<Rightarrow> int"
  RAND_MAX :: int
  dbl_of_int :: "int \<Rightarrow> 'd"
  sin_d :: "'d \<Rightarrow> 'd"
  cos_d :: "'d \<Rightarrow> 'd"
  dbl_of_lit :: "rat \<Rightarrow> 'd"
  fresh_host :: "'d buffer"
  fresh_dev :: "dev_ptr \<Rightarrow> 'd buffer"
  elapsed_ms :: 'd
  peers_gpu :: "'d list"
  peers_wall :: "'d list"

text \<open>Line 53: \<^verbatim>\<open>double tolerance = 1.0e-14\<close>, the \<open>double\<close> that the literal denotes.\<close>

definition tolerance :: "'d env \<Rightarrow> 'd" where
  "tolerance env = dbl_of_lit env (1 / 10 ^ 14)"

text \<open>
  The state of the process: its output so far, host arrays, device memory, the device
  buffers and timestamp markers that are live, and the local variables read later.
\<close>

record 'd state =
  trace :: "'d event list"
  h_A :: "'d buffer"
  h_B :: "'d buffer"
  h_C :: "'d buffer"
  dev :: "dev_ptr \<Rightarrow> 'd buffer"
  allocated :: "dev_ptr set"
  markers :: "hipEvent_t set"
  milliseconds :: 'd
  max_gpu_time :: "'d option"
  result :: 'd
  relative_difference :: 'd
  total_time_max :: "'d option"

text \<open>How a process ends: by \<^verbatim>\<open>exit(code)\<close> or by returning from \<open>main\<close>.\<close>

datatype outcome = Exited int | Returned int

fun exit_status :: "outcome \<Rightarrow> int" where
  "exit_status (Exited c) = c"
| "exit_status (Returned c) = c"

type_synonym 'd step = "'d state \<Rightarrow> (int \<times> 'd state) + 'd state"

definition emit :: "'d event \<Rightarrow> 'd state \<Rightarrow> 'd state" where
  "emit e s = s\<lparr>trace := trace s @ [e]\<rparr>"

text \<open>
  The macro \<open>hipErrorCheck(call)\<close> at source line \<open>line\<close>: the call is made; a status
  other than \<open>hipSuccess\<close> is printed with the line and the process calls \<^verbatim>\<open>exit(0)\<close>;
  otherwise the call has had its effect.
\<close>

definition hipErrorCheck ::
  "'d env \<Rightarrow> nat \<Rightarrow> hip_call \<Rightarrow> ('d state \<Rightarrow> 'd state) \<Rightarrow> 'd step" where
  "hipErrorCheck env line call effect s =
     (let hipErr = hip_ret env line; s' = emit (Hip call) s in
      if hipSuccess \<noteq> hipErr then Inl (0, emit (Print_HIP_Error line hipErr) s')
      else Inr (effect s'))"

text \<open>A statement that cannot exit.\<close>

definition stmt :: "('d state \<Rightarrow> 'd state) \<Rightarrow> 'd step" where
  "stmt f s = Inr (f s)"

text \<open>Statements in sequence; the first \<^verbatim>\<open>exit\<close> ends the run.\<close>

fun run_steps :: "'d step list \<Rightarrow> 'd step" where
  "run_steps [] s = Inr s"
| "run_steps (f # fs) s = (case f s of Inl e \<Rightarrow> Inl e | Inr s' \<Rightarrow> run_steps fs s')"

subsection \<open>Host loops\<close>

text \<open>
  Lines 61 to 66.  Iteration \<open>i\<close> makes the \<open>i\<close>-th call of \<open>rand\<close>, the only calls in the
  program.
\<close>

definition random_value :: "'d::inverse env \<Rightarrow> nat \<Rightarrow> 'd" where
  "random_value env i = dbl_of_int env (rand_out env i) / dbl_of_int env (RAND_MAX env)"

definition seed_step :: "('d::{times,inverse}) env \<Rightarrow> 'd state \<Rightarrow> nat \<Rightarrow> 'd state" where
  "seed_step env s i =
     (let r = random_value env i in
      s\<lparr>h_A := (h_A s)(int i := sin_d env r * sin_d env r),
        h_B := (h_B s)(int i := cos_d env r * cos_d env r),
        h_C := (h_C s)(int i := dbl_of_int env 0)\<rparr>)"

definition seed :: "('d::{times,inverse}) env \<Rightarrow> int \<Rightarrow> 'd state \<Rightarrow> 'd state" where
  "seed env N s = foldl (seed_step env) s [0..<nat N]"

text \<open>Lines 97 to 100.\<close>

definition sum_loop :: "('d::plus) env \<Rightarrow> int \<Rightarrow> 'd buffer \<Rightarrow> 'd" where
  "sum_loop env N c = foldl (\<lambda>sum i. sum + c (int i)) (dbl_of_int env 0) [0..<nat N]"

text \<open>\<open>hipMemcpy\<close> of \<open>buffer_size = N * sizeof(double)\<close> bytes: the first \<open>N\<close> elements.\<close>

definition memcpy :: "int \<Rightarrow> 'd buffer \<Rightarrow> 'd buffer \<Rightarrow> 'd buffer" where
  "memcpy N dst src = (\<lambda>i. if 0 \<le> i \<and> i < N then src i else dst i)"

subsection \<open>The reductions\<close>

text \<open>
  Modelled from the spec: \<open>MPI_Reduce\<close> with \<open>MPI_MAX\<close> belongs to the MPI library, not to
  the repository.  Every process contributes one value; the coordinator (rank 0)
  receives the maximum of all of them, the others receive nothing.  The contributions
  are those of the coordinator followed by those of its peers.
\<close>

fun MPI_MAX :: "('a::ord) \<Rightarrow> 'a list \<Rightarrow> 'a" where
  "MPI_MAX x [] = x"
| "MPI_MAX x (y # ys) = MPI_MAX (max x y) ys"

text \<open>
  Modelled from the spec: the call \<open>MPI_Reduce(sendbuf, recvbuf, 1, type, MPI_MAX, 0, comm)\<close>
  as one process sees it.  \<open>recvbuf\<close> is written at rank 0 only.
\<close>

definition MPI_Reduce :: "int \<Rightarrow> ('a::ord) \<Rightarrow> 'a list \<Rightarrow> 'a option \<Rightarrow> 'a option" where
  "MPI_Reduce rnk sendbuf peers recvbuf =
     (if rnk = 0 then Some (MPI_MAX sendbuf peers) else recvbuf)"

subsection \<open>The main program\<close>

definition init_state :: "'d env \<Rightarrow> 'd state" where
  "init_state env =
     \<lparr>trace = [], h_A = fresh_host env, h_B = fresh_host env, h_C = fresh_host env,
      dev = fresh_dev env, allocated = {}, markers = {},
      milliseconds = dbl_of_int env 0, max_gpu_time = None,
      result = dbl_of_int env 0, relative_difference = dbl_of_int env 0,
      total_time_max = None\<rparr>"

definition alloc :: "dev_ptr \<Rightarrow> 'd state \<Rightarrow> 'd state" where
  "alloc p s = s\<lparr>allocated := insert p (allocated s)\<rparr>"

definition release :: "dev_ptr \<Rightarrow> 'd state \<Rightarrow> 'd state" where
  "release p s = s\<lparr>allocated := allocated s - {p}\<rparr>"

definition to_device :: "int \<Rightarrow> dev_ptr \<Rightarrow> ('d state \<Rightarrow> 'd buffer) \<Rightarrow> 'd state \<Rightarrow> 'd state" where
  "to_device N p src s = s\<lparr>dev := (dev s)(p := memcpy N (dev s p) (src s))\<rparr>"

definition create_marker :: "hipEvent_t \<Rightarrow> 'd state \<Rightarrow> 'd state" where
  "create_marker e s = s\<lparr>markers := insert e (markers s)\<rparr>"

text \<open>Line 85; the launch is not checked.\<close>

definition launch_kernel :: "int \<Rightarrow> ('d::plus) state \<Rightarrow> 'd state" where
  "launch_kernel N s =
     (let s' = emit (Hip hipLaunchKernelGGL) s in
      s'\<lparr>dev := (dev s')(d_C := device_add N (dev s' d_A) (dev s' d_B) (dev s' d_C))\<rparr>)"

text \<open>Lines 94 and 95.\<close>

definition reduce_gpu :: "('d::ord) env \<Rightarrow> 'd state \<Rightarrow> 'd state" where
  "reduce_gpu env s =
     (let s' = emit (MPI_Reduce_MAX_float (milliseconds s)) s in
      s'\<lparr>max_gpu_time := MPI_Reduce (rank env) (milliseconds s) (peers_gpu env) (max_gpu_time s)\<rparr>)"

text \<open>Lines 97 to 108.\<close>

definition verify :: "('d::{plus,minus,inverse,abs,ord}) env \<Rightarrow> int \<Rightarrow> 'd step" where
  "verify env N s =
     (let sum = sum_loop env N (h_C s);
          res = sum / dbl_of_int env N;
          rd = \<bar>(res - dbl_of_int env 1) / dbl_of_int env 1\<bar>;
          s' = s\<lparr>result := res, relative_difference := rd\<rparr>
      in if tolerance env < rd then Inl (1, emit (Print_Test_failed (rank env)) s')
         else Inr s')"

text \<open>Lines 119 to 122.\<close>

definition reduce_wall :: "('d::{minus,ord}) env \<Rightarrow> 'd state \<Rightarrow> 'd state" where
  "reduce_wall env s =
     (let elapsed_time = wtime_end env - wtime_start env;
          s' = emit (MPI_Reduce_MAX_double elapsed_time) s in
      s'\<lparr>total_time_max := MPI_Reduce (rank env) elapsed_time (peers_wall env) (total_time_max s)\<rparr>)"

text \<open>
  Lines 124 to 131.  The fields of the report are the six values printed; the first
  \<open>printf\<close> (line 44) prints the group size.  \<open>buffer_size\<close> is \<open>N * sizeof(double)\<close>.
\<close>

definition report :: "('d::inverse) env \<Rightarrow> int \<Rightarrow> 'd state \<Rightarrow> 'd state" where
  "report env N s =
     (if rank env = 0 then
        emit (Print_report (result s) (relative_difference s) (tolerance env) (N * 8)
               (the (max_gpu_time s) / dbl_of_int env 1000)
               (the (total_time_max s) / dbl_of_int env 1000)) s
      else s)"

definition print_ranks :: "'d env \<Rightarrow> 'd state \<Rightarrow> 'd state" where
  "print_ranks env s = (if rank env = 0 then emit (Print_ranks (mpi_size env)) s else s)"

definition main_steps ::
  "('d::{plus,minus,times,inverse,abs,ord}) env \<Rightarrow> int \<Rightarrow> 'd step list" where
  "main_steps env N =
     [stmt (print_ranks env),
      stmt (seed env N),
      hipErrorCheck env 69 (hipMalloc d_A) (alloc d_A),
      hipErrorCheck env 70 (hipMalloc d_B) (alloc d_B),
      hipErrorCheck env 71 (hipMalloc d_C) (alloc d_C),
      hipErrorCheck env 73 (hipMemcpyHostToDevice d_A) (to_device N d_A h_A),
      hipErrorCheck env 74 (hipMemcpyHostToDevice d_B) (to_device N d_B h_B),
      hipErrorCheck env 77 (hipEventCreate ev_start) (create_marker ev_start),
      hipErrorCheck env 78 (hipEventCreate ev_end) (create_marker ev_end),
      hipErrorCheck env 84 (hipEventRecord ev_start) id,
      stmt (launch_kernel N),
      hipErrorCheck env 87 (hipEventRecord ev_end) id,
      hipErrorCheck env 88 (hipEventSynchronize ev_end) id,
      hipErrorCheck env 90 hipEventElapsedTime (\<lambda>s. s\<lparr>milliseconds := elapsed_ms env\<rparr>),
      hipErrorCheck env 92 (hipMemcpyDeviceToHost d_C) (\<lambda>s. s\<lparr>h_C := memcpy N (h_C s) (dev s d_C)\<rparr>),
      stmt (reduce_gpu env),
      verify env N,
      hipErrorCheck env 111 (hipFree d_A) (release d_A),
      hipErrorCheck env 112 (hipFree d_B) (release d_B),
      hipErrorCheck env 113 (hipFree d_C) (release d_C),
      stmt (emit Free_host),
      stmt (reduce_wall env),
      stmt (report env N),
      stmt (emit MPI_Finalize)]"

definition main :: "('d::{plus,minus,times,inverse,abs,ord}) env \<Rightarrow> int \<Rightarrow> outcome \<times> 'd state" where
  "main env N =
     (case run_steps (main_steps env N) (init_state env) of
        Inl (code, s) \<Rightarrow> (Exited code, s)
      | Inr s \<Rightarrow> (Returned 0, s))"


text \<open>The device calls before the verification, and those after it, by source line.\<close>

definition device_phase_ok :: "'d env \<Rightarrow> bool" where
  "device_phase_ok env =
     list_all (\<lambda>line. hip_ret env line = hipSuccess) [69, 70, 71, 73, 74, 77, 78, 84, 87, 88, 90, 92]"

definition cleanup_ok :: "'d env \<Rightarrow> bool" where
  "cleanup_ok env = list_all (\<lambda>line. hip_ret env line = hipSuccess) [111, 112, 113]"

subsection \<open>The verification, in the words of the spec\<close>

text \<open>
  For comparison with lines 97 to 108.  The spec (4.3) has: compute \<open>mean(C)\<close>, then
  \<open>relative_difference = |mean(C) - 1.0|\<close>.  \<open>mean(C)\<close> is the sum of \<open>C[0], ..., C[N-1]\<close>,
  taken in the order of the indices, divided by \<open>N\<close>.
\<close>

primrec sum_spec :: "('d::plus) env \<Rightarrow> 'd buffer \<Rightarrow> nat \<Rightarrow> 'd" where
  "sum_spec env c 0 = dbl_of_int env 0"
| "sum_spec env c (Suc k) = sum_spec env c k + c (int k)"

definition mean_spec :: "('d::{plus,inverse}) env \<Rightarrow> int \<Rightarrow> 'd buffer \<Rightarrow> 'd" where
  "mean_spec env N c = sum_spec env c (nat N) / dbl_of_int env N"

definition relative_difference_spec ::
  "('d::{plus,minus,inverse,abs}) env \<Rightarrow> int \<Rightarrow> 'd buffer \<Rightarrow> 'd" where
  "relative_difference_spec env N c = \<bar>mean_spec env N c - dbl_of_int env 1\<bar>"

subsection \<open>Concrete runs\<close>

text \<open>
  Runs of a coordinator in a group of three, with rational numbers for \<open>double\<close> and
  the Taylor polynomials \<open>x - x^3/6\<close> and \<open>1 - x^2/2\<close> for \<open>sin\<close> and \<open>cos\<close> (exact at
  \<open>0\<close>, inexact elsewhere, as a rounding library is).  In \<open>env_ok\<close> every draw of
  \<open>rand\<close> is \<open>0\<close> and the verification passes; in \<open>env_inexact\<close> every draw is
  \<open>RAND_MAX\<close> and it fails; in \<open>env_oom\<close> the first device allocation fails.
\<close>

definition env_ok :: "rat env" where
  "env_ok =
     \<lparr>rank = 0, mpi_size = 3, hip_ret = (\<lambda>line. hipSuccess),
      wtime_start = 10, wtime_end = 12,
      rand_out = (\<lambda>k. 0), RAND_MAX = 2147483647, dbl_of_int = of_int,
      sin_d = (\<lambda>x. x - x * x * x / 6), cos_d = (\<lambda>x. 1 - x * x / 2),
      dbl_of_lit = (\<lambda>q. q),
      fresh_host = (\<lambda>i. 7), fresh_dev = (\<lambda>p i. 9),
      elapsed_ms = 5, peers_gpu = [7, 3], peers_wall = [3, 1]\<rparr>"

definition env_inexact :: "rat env" where
  "env_inexact = env_ok\<lparr>rand_out := (\<lambda>k. 2147483647)\<rparr>"

definition env_oom :: "rat env" where
  "env_oom = env_ok\<lparr>hip_ret := (\<lambda>line. if line = 69 then hipErrorOutOfMemory else hipSuccess)\<rparr>"

text \<open>
  Two runs with small angles, where the Taylor polynomials are accurate to about
  \<open>10^-13\<close>: \<open>RAND_MAX\<close> is \<open>32767\<close>, and the draws of \<open>rand\<close> are \<open>33, 34, ...\<close> in
  \<open>env_above\<close> and \<open>15, 16, ...\<close> in \<open>env_below\<close>.  The relative difference is a little
  above the tolerance in the first and a little below it in the second.
\<close>

definition env_above :: "rat env" where
  "env_above = env_ok\<lparr>rand_out := (\<lambda>k. 33 + int k), RAND_MAX := 32767\<rparr>"

definition env_below :: "rat env" where
  "env_below = env_ok\<lparr>rand_out := (\<lambda>k. 15 + int k), RAND_MAX := 32767\<rparr>"

text \<open>Exact arithmetic: real numbers for \<open>double\<close>, with the real sine and cosine.\<close>

definition env_exact :: "real env" where
  "env_exact =
     \<lparr>rank = 0, mpi_size = 1, hip_ret = (\<lambda>line. hipSuccess),
      wtime_start = 0, wtime_end = 1,
      rand_out = (\<lambda>k. int k), RAND_MAX = 2147483647, dbl_of_int = of_int,
      sin_d = sin, cos_d = cos,
      dbl_of_lit = of_rat,
      fresh_host = (\<lambda>i. 7), fresh_dev = (\<lambda>p i. 9),
      elapsed_ms = 5, peers_gpu = [], peers_wall = []\<rparr>"


section \<open>Properties\<close>

subsection \<open>Conversions and the execution configuration\<close>

lemma float_of_ll_small: "0 \<le> N \<Longrightarrow> N < 2 ^ 24 \<Longrightarrow> float_of_ll N = N"
proof -
  assume a: "0 \<le> N" "N < 2 ^ 24"
  have "bitlen N \<le> 24"
    using a by (simp add: bitlen_le_iff_power)
  then show ?thesis using a by (simp add: float_of_ll_def Let_def)
qed

lemma float_of_ll_range:
  assumes "0 < N" "N < 2 ^ 31"
  shows "0 \<le> float_of_ll N \<and> float_of_ll N \<le> 2 ^ 31"
proof (cases "bitlen N - 24 \<le> 0")
  case True
  then show ?thesis using assms by (simp add: float_of_ll_def Let_def)
next
  case False
  define e where "e = nat (bitlen N - 24)"
  define u :: int where "u = 2 ^ e"
  have e_pos: "0 < e" using False by (simp add: e_def)
  have bl: "bitlen N \<le> 31" using assms by (simp add: bitlen_le_iff_power)
  have e_le: "e \<le> 7" using bl by (simp add: e_def)
  have u_pos: "0 < u" by (simp add: u_def)
  have "N < 2 ^ nat (bitlen N)" using bitlen_bounds [OF assms(1)] by simp
  also have "nat (bitlen N) = 24 + e" using False by (simp add: e_def)
  finally have "N < 2 ^ 24 * u" by (simp add: u_def power_add)
  then have q_lt: "N div u < 2 ^ 24"
  proof -
    assume a: "N < 2 ^ 24 * u"
    have "u * (N div u) \<le> N"
      using u_pos by (metis mult_div_mod_eq pos_mod_sign le_add_same_cancel1)
    then have "u * (N div u) < u * 2 ^ 24" using a by (simp add: mult.commute)
    then show ?thesis using u_pos by (simp only: mult_less_cancel_left_pos)
  qed
  have q_ge: "0 \<le> N div u" using assms u_pos by (simp add: pos_imp_zdiv_nonneg_iff)
  have "u \<le> 2 ^ 7" unfolding u_def using e_le by (intro power_increasing) auto
  then have u_le: "u \<le> 128" by simp
  have up: "(N div u + 1) * u \<le> 2 ^ 24 * 128"
    using q_lt q_ge u_le u_pos by (intro mult_mono) auto
  have lo: "0 \<le> N div u * u" using q_ge u_pos by simp
  have lo2: "N div u * u \<le> (N div u + 1) * u" using u_pos by (simp add: distrib_right)
  have fl: "float_of_ll N = N div u * u \<or> float_of_ll N = (N div u + 1) * u"
    using assms False by (simp add: float_of_ll_def Let_def e_def u_def)
  have up': "(N div u + 1) * u \<le> 2 ^ 31" using up by simp
  from fl show ?thesis
  proof
    assume "float_of_ll N = N div u * u"
    then show ?thesis using lo lo2 up' by linarith
  next
    assume "float_of_ll N = (N div u + 1) * u"
    then show ?thesis using lo lo2 up' by linarith
  qed
qed

lemma neg_div_256: "- (- (x::int) div 256) = (x + 255) div 256"
  by linarith

lemma blk_in_grid_div: "blk_in_grid N = (float_of_ll N + 255) div 256"
proof -
  have "blk_in_grid N = \<lceil>(of_int (float_of_ll N) :: rat) / of_int 256\<rceil>"
    by (simp add: blk_in_grid_def thr_per_blk_def)
  also have "\<dots> = - (- float_of_ll N div 256)"
    by (rule ceiling_divide_eq_div)
  also have "\<dots> = (float_of_ll N + 255) div 256"
    by (rule neg_div_256)
  finally show ?thesis .
qed

lemma blk_in_grid_range:
  assumes "0 < N" "N < 2 ^ 31"
  shows "0 \<le> blk_in_grid N \<and> blk_in_grid N \<le> 2 ^ 23"
proof -
  have "0 \<le> float_of_ll N" "float_of_ll N \<le> 2147483648"
    using float_of_ll_range [OF assms] by simp_all
  then have "0 \<le> (float_of_ll N + 255) div 256 \<and> (float_of_ll N + 255) div 256 \<le> 8388608"
    by linarith
  then show ?thesis by (simp add: blk_in_grid_div)
qed


lemma blk_in_grid_small:
  assumes "0 \<le> N" "N < 2 ^ 24"
  shows "blk_in_grid N = (N + 255) div 256"
  by (simp add: blk_in_grid_div float_of_ll_small [OF assms])

lemma sint_global_id:
  assumes "int t * int g \<le> 2 ^ 31" "blk < g" "thr < t"
  shows "sint (global_id \<lparr>blockDim_x = of_nat t, blockIdx_x = of_nat blk, threadIdx_x = of_nat thr\<rparr>)
           = int t * int blk + int thr"
proof -
  let ?k = "int t * int blk + int thr"
  have "int t * int blk + int t \<le> int t * int g"
  proof -
    have "int blk + 1 \<le> int g" using assms(2) by simp
    then have "int t * (int blk + 1) \<le> int t * int g"
      by (intro mult_left_mono) auto
    then show ?thesis by (simp add: distrib_left)
  qed
  then have hi: "?k < 2 ^ 31" using assms(1,3) by linarith
  have lo: "- (2 ^ 31) \<le> ?k"
  proof -
    have "0 \<le> ?k" by simp
    moreover have "- (2 ^ 31) \<le> (0::int)" by simp
    ultimately show ?thesis by (rule order_trans [rotated])
  qed
  have w: "global_id \<lparr>blockDim_x = of_nat t, blockIdx_x = of_nat blk, threadIdx_x = of_nat thr\<rparr>
          = (word_of_int ?k :: 32 word)"
    by (simp add: global_id_def)
  have "sint (word_of_int ?k :: 32 word) = signed_take_bit (LENGTH(32) - 1) ?k"
    by (rule sint_sbintrunc')
  also have "\<dots> = ?k"
    using lo hi by (intro signed_take_bit_int_eq_self) simp_all
  finally show ?thesis by (simp only: w)
qed

lemma launch_at:
  "launch ws a b c n i =
     (if \<exists>w \<in> set ws. sint (global_id w) = i \<and> i < sint n then a i + b i else c i)"
proof (induction ws arbitrary: c)
  case Nil
  then show ?case by (simp add: launch_def)
next
  case (Cons w ws)
  have "launch (w # ws) a b c n = launch ws a b (add_vectors a b c n w) n"
    by (simp add: launch_def)
  then show ?case
    using Cons.IH [of "add_vectors a b c n w"]
    by (auto simp add: add_vectors_def Let_def)
qed

lemma global_id_bound:
  assumes "blk < g" "thr < t"
  shows "int t * int blk + int thr < int t * int g"
proof -
  have "int blk + 1 \<le> int g" using assms(1) by simp
  then have "int t * (int blk + 1) \<le> int t * int g"
    by (intro mult_left_mono) auto
  then have "int t * int blk + int t \<le> int t * int g" by (simp add: distrib_left)
  then show ?thesis using assms(2) by linarith
qed

lemma set_work_items:
  "set (work_items g t) =
     {\<lparr>blockDim_x = of_nat t, blockIdx_x = of_nat blk, threadIdx_x = of_nat thr\<rparr> | blk thr.
        blk < g \<and> thr < t}"
  by (auto simp add: work_items_def) blast

lemma work_items_ids:
  assumes "0 < t" "int t * int g \<le> 2 ^ 31"
  shows "(\<exists>w \<in> set (work_items g t). sint (global_id w) = i) \<longleftrightarrow> 0 \<le> i \<and> i < int t * int g"
proof
  assume "\<exists>w \<in> set (work_items g t). sint (global_id w) = i"
  then obtain blk thr where bt: "blk < g" "thr < t"
    and i: "sint (global_id \<lparr>blockDim_x = of_nat t, blockIdx_x = of_nat blk, threadIdx_x = of_nat thr\<rparr>) = i"
    unfolding set_work_items by blast
  have "i = int t * int blk + int thr"
    using sint_global_id [OF assms(2) bt] i by simp
  then show "0 \<le> i \<and> i < int t * int g"
    using global_id_bound [OF bt] by simp
next
  assume a: "0 \<le> i \<and> i < int t * int g"
  define blk where "blk = nat (i div int t)"
  define thr where "thr = nat (i mod int t)"
  have tpos: "0 < int t" using assms(1) by simp
  have q0: "0 \<le> i div int t" using a tpos by (simp add: pos_imp_zdiv_nonneg_iff)
  have r0: "0 \<le> i mod int t" and r1: "i mod int t < int t" using tpos by simp_all
  have "i div int t < int g"
  proof (rule ccontr)
    assume "\<not> i div int t < int g"
    then have "int g \<le> i div int t" by simp
    then have "int t * int g \<le> int t * (i div int t)"
      using tpos by (intro mult_left_mono) auto
    moreover have "int t * (i div int t) + i mod int t = i" by simp
    ultimately show False using a r0 by linarith
  qed
  then have bg: "blk < g" using q0 by (simp add: blk_def nat_less_iff)
  have tt: "thr < t" using r0 r1 by (simp add: thr_def nat_less_iff)
  have "int t * int blk + int thr = i"
    using q0 r0 by (simp add: blk_def thr_def)
  then have "sint (global_id \<lparr>blockDim_x = of_nat t, blockIdx_x = of_nat blk, threadIdx_x = of_nat thr\<rparr>) = i"
    using sint_global_id [OF assms(2) bg tt] by simp
  moreover have "\<lparr>blockDim_x = of_nat t, blockIdx_x = of_nat blk, threadIdx_x = of_nat thr\<rparr>
      \<in> set (work_items g t)"
    unfolding set_work_items using bg tt by blast
  ultimately show "\<exists>w \<in> set (work_items g t). sint (global_id w) = i" by blast
qed

lemma sint_int_of_ll:
  assumes "- (2 ^ 31) \<le> N" "N < 2 ^ 31"
  shows "sint (int_of_ll N) = N"
proof -
  have "sint (word_of_int N :: 32 word) = signed_take_bit (LENGTH(32) - 1) N"
    by (rule sint_sbintrunc')
  also have "\<dots> = N"
    using assms by (intro signed_take_bit_int_eq_self) simp_all
  finally show ?thesis by (simp only: int_of_ll_def)
qed

lemma grid_fits:
  assumes "0 < N" "N < 2 ^ 31"
  shows "int (nat thr_per_blk) * int (nat (blk_in_grid N)) \<le> 2 ^ 31"
    and "int (nat thr_per_blk) * int (nat (blk_in_grid N)) = thr_per_blk * blk_in_grid N"
proof -
  have r: "0 \<le> blk_in_grid N" "blk_in_grid N \<le> 8388608"
    using blk_in_grid_range [OF assms] by simp_all
  show "int (nat thr_per_blk) * int (nat (blk_in_grid N)) = thr_per_blk * blk_in_grid N"
    using r by (simp add: thr_per_blk_def)
  show "int (nat thr_per_blk) * int (nat (blk_in_grid N)) \<le> 2 ^ 31"
    using r by (simp add: thr_per_blk_def)
qed

lemma launch_grid_at:
  assumes "0 < N" "N < 2 ^ 31"
    and "set ws = set (work_items (nat (blk_in_grid N)) (nat thr_per_blk))"
  shows "launch ws a b c (int_of_ll N) i =
           (if 0 \<le> i \<and> i < N \<and> i < thr_per_blk * blk_in_grid N then a i + b i else c i)"
proof -
  have n: "sint (int_of_ll N) = N"
    using assms(1,2) by (intro sint_int_of_ll) simp_all
  have t: "0 < nat thr_per_blk" by (simp add: thr_per_blk_def)
  have ids: "(\<exists>w \<in> set ws. sint (global_id w) = i) \<longleftrightarrow> 0 \<le> i \<and> i < thr_per_blk * blk_in_grid N"
    unfolding assms(3)
    using work_items_ids [OF t grid_fits(1) [OF assms(1,2)], of i]
    by (simp only: grid_fits(2) [OF assms(1,2)])
  have "(\<exists>w \<in> set ws. sint (global_id w) = i \<and> i < sint (int_of_ll N))
          \<longleftrightarrow> (0 \<le> i \<and> i < N \<and> i < thr_per_blk * blk_in_grid N)"
    using ids n by auto
  then show ?thesis by (simp only: launch_at)
qed

lemma device_add_at:
  assumes "0 < N" "N < 2 ^ 31"
  shows "device_add N a b c i =
           (if 0 \<le> i \<and> i < N \<and> i < thr_per_blk * blk_in_grid N then a i + b i else c i)"
  unfolding device_add_def by (rule launch_grid_at [OF assms refl])

lemma blk_in_grid_covers:
  assumes "0 < N" "N < 2 ^ 24"
  shows "N \<le> thr_per_blk * blk_in_grid N"
proof -
  have "blk_in_grid N = (N + 255) div 256"
    using assms by (intro blk_in_grid_small) simp_all
  moreover have "N \<le> 256 * ((N + 255) div 256)" by linarith
  ultimately show ?thesis by (simp add: thr_per_blk_def)
qed

lemma device_add_covered:
  assumes "0 < N" "N < 2 ^ 24"
  shows "device_add N a b c = (\<lambda>i. if 0 \<le> i \<and> i < N then a i + b i else c i)"
proof
  fix i
  have "N < 2 ^ 31" using assms(2) by simp
  then show "device_add N a b c i = (if 0 \<le> i \<and> i < N then a i + b i else c i)"
    using blk_in_grid_covers [OF assms] by (simp add: device_add_at [OF assms(1)])
qed

text \<open>The configuration of the source, \<open>N = 256*1024*1024\<close>, covers its \<open>N\<close>.\<close>

lemma blk_in_grid_N_ref:
  "blk_in_grid N_ref = 1048576" "N_ref \<le> thr_per_blk * blk_in_grid N_ref"
  by (simp_all add: blk_in_grid_div float_of_ll_def Let_def compute_bitlen N_ref_def thr_per_blk_def)


subsection \<open>Host loops\<close>

lemma upd_below:
  "(\<lambda>i. if 0 \<le> i \<and> i < int n then f (nat i) else g i)(int n := f n) =
     (\<lambda>i. if 0 \<le> i \<and> i < int (Suc n) then f (nat i) else g i)"
  by (auto simp add: fun_eq_iff)

lemma seed_upto:
  "foldl (seed_step env) s [0..<n] =
     s\<lparr>h_A := (\<lambda>i. if 0 \<le> i \<and> i < int n
                   then sin_d env (random_value env (nat i)) * sin_d env (random_value env (nat i))
                   else h_A s i),
       h_B := (\<lambda>i. if 0 \<le> i \<and> i < int n
                   then cos_d env (random_value env (nat i)) * cos_d env (random_value env (nat i))
                   else h_B s i),
       h_C := (\<lambda>i. if 0 \<le> i \<and> i < int n then dbl_of_int env 0 else h_C s i)\<rparr>"
proof (induction n)
  case 0
  have e: "\<And>i::int. (0 \<le> i \<and> i < 0) = False" by auto
  show ?case by (simp add: e)
next
  case (Suc n)
  let ?fa = "\<lambda>k. sin_d env (random_value env k) * sin_d env (random_value env k)"
  let ?fb = "\<lambda>k. cos_d env (random_value env k) * cos_d env (random_value env k)"
  let ?fc = "\<lambda>k::nat. dbl_of_int env 0"
  have step: "foldl (seed_step env) s [0..<Suc n] = seed_step env (foldl (seed_step env) s [0..<n]) n"
    by simp
  show ?case
    unfolding step Suc.IH
    unfolding upd_below [of n ?fa "h_A s", symmetric] upd_below [of n ?fb "h_B s", symmetric]
      upd_below [of n ?fc "h_C s", symmetric]
    by (simp add: seed_step_def Let_def)
qed

lemma seed_eq:
  "seed env N s =
     s\<lparr>h_A := (\<lambda>i. if 0 \<le> i \<and> i < N
                   then sin_d env (random_value env (nat i)) * sin_d env (random_value env (nat i))
                   else h_A s i),
       h_B := (\<lambda>i. if 0 \<le> i \<and> i < N
                   then cos_d env (random_value env (nat i)) * cos_d env (random_value env (nat i))
                   else h_B s i),
       h_C := (\<lambda>i. if 0 \<le> i \<and> i < N then dbl_of_int env 0 else h_C s i)\<rparr>"
proof -
  have e: "\<And>i. (0 \<le> i \<and> i < int (nat N)) = (0 \<le> i \<and> i < N)" by auto
  show ?thesis unfolding seed_def seed_upto by (simp only: e)
qed

lemma sum_loop_ones_upto:
  fixes c :: "real buffer"
  assumes "\<forall>i. 0 \<le> i \<and> i < int n \<longrightarrow> c i = 1"
  shows "foldl (\<lambda>sum i. sum + c (int i)) 0 [0..<n] = of_nat n"
  using assms
proof (induction n)
  case 0
  then show ?case by simp
next
  case (Suc n)
  then have "foldl (\<lambda>sum i. sum + c (int i)) 0 [0..<n] = of_nat n" by simp
  moreover have "c (int n) = 1" using Suc.prems by simp
  ultimately show ?case by simp
qed

lemma sum_loop_ones:
  fixes env :: "real env"
  assumes "dbl_of_int env = of_int" "0 \<le> N" "\<forall>i. 0 \<le> i \<and> i < N \<longrightarrow> c i = 1"
  shows "sum_loop env N c = of_int N"
proof -
  have "\<forall>i. 0 \<le> i \<and> i < int (nat N) \<longrightarrow> c i = 1" using assms(2,3) by simp
  then have "foldl (\<lambda>sum i. sum + c (int i)) 0 [0..<nat N] = of_nat (nat N)"
    by (rule sum_loop_ones_upto)
  then show ?thesis using assms(1,2) by (simp add: sum_loop_def)
qed

text \<open>The loop of lines 97 to 100 adds the elements in the order of the indices.\<close>

lemma sum_loop_upto:
  "foldl (\<lambda>sum i. sum + c (int i)) (dbl_of_int env 0) [0..<n] = sum_spec env c n"
  by (induction n) simp_all

lemma sum_loop_spec: "sum_loop env N c = sum_spec env c (nat N)"
  by (simp add: sum_loop_def sum_loop_upto)

text \<open>In exact arithmetic \<open>sum_spec\<close> is the sum of the elements.\<close>

lemma sum_spec_exact:
  fixes env :: "('d::comm_monoid_add) env"
  assumes "dbl_of_int env 0 = 0"
  shows "sum_spec env c n = (\<Sum>k<n. c (int k))"
  by (induction n) (simp_all add: assms add.commute)

subsection \<open>The reductions\<close>

lemma MPI_MAX_ge_first: "(x :: 'a::linorder) \<le> MPI_MAX x xs"
proof (induction xs arbitrary: x)
  case Nil
  then show ?case by simp
next
  case (Cons y ys)
  have "x \<le> max x y" by simp
  also have "max x y \<le> MPI_MAX (max x y) ys" by (rule Cons.IH)
  finally show ?case by simp
qed

lemma MPI_MAX_ge_peers: "v \<in> set xs \<Longrightarrow> (v :: 'a::linorder) \<le> MPI_MAX x xs"
proof (induction xs arbitrary: x)
  case Nil
  then show ?case by simp
next
  case (Cons y ys)
  show ?case
  proof (cases "v = y")
    case True
    have "y \<le> max x y" by simp
    also have "max x y \<le> MPI_MAX (max x y) ys" by (rule MPI_MAX_ge_first)
    finally show ?thesis using True by simp
  next
    case False
    then have "v \<in> set ys" using Cons.prems by simp
    then show ?thesis using Cons.IH by simp
  qed
qed

subsection \<open>Runs of the main program\<close>

text \<open>Whatever the call and the line, a status other than \<open>hipSuccess\<close> ends the run with \<open>exit(0)\<close>.\<close>

lemma hipErrorCheck_failure:
  "hip_ret env line \<noteq> hipSuccess \<Longrightarrow>
     hipErrorCheck env line call effect s =
       Inl (0, emit (Print_HIP_Error line (hip_ret env line)) (emit (Hip call) s))"
  by (auto simp add: hipErrorCheck_def Let_def)

lemma hipErrorCheck_success:
  "hip_ret env line = hipSuccess \<Longrightarrow>
     hipErrorCheck env line call effect s = Inr (effect (emit (Hip call) s))"
  by (simp add: hipErrorCheck_def Let_def)

lemmas main_unfold = main_def main_steps_def hipErrorCheck_def stmt_def emit_def print_ranks_def
  init_state_def alloc_def release_def to_device_def create_marker_def launch_kernel_def
  reduce_gpu_def verify_def reduce_wall_def report_def seed_eq Let_def

text \<open>What the verification has computed, in every run that reaches it.\<close>

lemma main_verify_values:
  assumes "device_phase_ok env"
  shows "result (snd (main env N)) = sum_loop env N (h_C (snd (main env N))) / dbl_of_int env N"
    and "relative_difference (snd (main env N)) =
           \<bar>(result (snd (main env N)) - dbl_of_int env 1) / dbl_of_int env 1\<bar>"
    and "h_C (snd (main env N)) =
           memcpy N (\<lambda>i. if 0 \<le> i \<and> i < N then dbl_of_int env 0 else fresh_host env i)
             (device_add N
               (memcpy N (fresh_dev env d_A)
                 (\<lambda>i. if 0 \<le> i \<and> i < N
                      then sin_d env (random_value env (nat i)) * sin_d env (random_value env (nat i))
                      else fresh_host env i))
               (memcpy N (fresh_dev env d_B)
                 (\<lambda>i. if 0 \<le> i \<and> i < N
                      then cos_d env (random_value env (nat i)) * cos_d env (random_value env (nat i))
                      else fresh_host env i))
               (fresh_dev env d_C))"
  using assms
  by (simp_all add: main_unfold device_phase_ok_def split: if_splits cong: if_cong)

text \<open>The array verified is the one copied back from the device.\<close>

lemma main_host_C:
  assumes "device_phase_ok env" "0 \<le> i" "i < N"
  shows "h_C (snd (main env N)) i = dev (snd (main env N)) d_C i"
  using assms
  by (simp add: main_unfold device_phase_ok_def memcpy_def split: if_splits cong: if_cong)

lemma main_status:
  assumes "device_phase_ok env"
  shows "(fst (main env N) = Exited 1) =
           (tolerance env < relative_difference (snd (main env N)))"
    and "exit_status (fst (main env N)) =
           (if tolerance env < relative_difference (snd (main env N)) then 1 else 0)"
  using assms
  by (simp_all add: main_unfold device_phase_ok_def split: if_splits cong: if_cong)

lemma main_verification_failed:
  assumes "device_phase_ok env" "tolerance env < relative_difference (snd (main env N))"
  shows "fst (main env N) = Exited 1"
    and "trace (snd (main env N)) =
      (if rank env = 0 then [Print_ranks (mpi_size env)] else []) @
      [Hip (hipMalloc d_A), Hip (hipMalloc d_B), Hip (hipMalloc d_C),
       Hip (hipMemcpyHostToDevice d_A), Hip (hipMemcpyHostToDevice d_B),
       Hip (hipEventCreate ev_start), Hip (hipEventCreate ev_end),
       Hip (hipEventRecord ev_start), Hip hipLaunchKernelGGL, Hip (hipEventRecord ev_end),
       Hip (hipEventSynchronize ev_end), Hip hipEventElapsedTime,
       Hip (hipMemcpyDeviceToHost d_C), MPI_Reduce_MAX_float (elapsed_ms env),
       Print_Test_failed (rank env)]"
  using assms
  by (simp_all add: main_unfold device_phase_ok_def split: if_splits cong: if_cong)

lemma main_success:
  assumes "device_phase_ok env" "cleanup_ok env"
    "\<not> tolerance env < relative_difference (snd (main env N))"
  shows "fst (main env N) = Returned 0"
    and "trace (snd (main env N)) =
      (if rank env = 0 then [Print_ranks (mpi_size env)] else []) @
      [Hip (hipMalloc d_A), Hip (hipMalloc d_B), Hip (hipMalloc d_C),
       Hip (hipMemcpyHostToDevice d_A), Hip (hipMemcpyHostToDevice d_B),
       Hip (hipEventCreate ev_start), Hip (hipEventCreate ev_end),
       Hip (hipEventRecord ev_start), Hip hipLaunchKernelGGL, Hip (hipEventRecord ev_end),
       Hip (hipEventSynchronize ev_end), Hip hipEventElapsedTime,
       Hip (hipMemcpyDeviceToHost d_C), MPI_Reduce_MAX_float (elapsed_ms env),
       Hip (hipFree d_A), Hip (hipFree d_B), Hip (hipFree d_C), Free_host,
       MPI_Reduce_MAX_double (wtime_end env - wtime_start env)] @
      (if rank env = 0
       then [Print_report (result (snd (main env N))) (relative_difference (snd (main env N)))
               (tolerance env) (N * 8)
               (MPI_MAX (elapsed_ms env) (peers_gpu env) / dbl_of_int env 1000)
               (MPI_MAX (wtime_end env - wtime_start env) (peers_wall env) / dbl_of_int env 1000)]
       else []) @
      [MPI_Finalize]"
    and "allocated (snd (main env N)) = {}"
    and "markers (snd (main env N)) = {ev_start, ev_end}"
  using assms
  by (auto simp add: main_unfold device_phase_ok_def cleanup_ok_def MPI_Reduce_def
      split: if_splits cong: if_cong)


subsection \<open>The kernel and its launch\<close>

text \<open>
  The kernel by itself.  Let \<open>n\<close> be the length the kernel receives, and run in any order
  \<open>ws\<close> the work-items of a grid of \<open>g\<close> groups of \<open>t\<close> threads whose indices fit the
  kernel's \<open>int id\<close> (\<open>t * g \<le> 2^31\<close>).  Every work-item has a non-negative global index
  \<open>id\<close>; it writes \<open>C[id] = A[id] + B[id]\<close> when \<open>id < n\<close> and writes nothing when
  \<open>id \<ge> n\<close>.  After the launch, \<open>C[i] = A[i] + B[i]\<close> at every index \<open>i\<close> of \<open>[0, n)\<close> that
  the grid reaches, which is all of \<open>[0, n)\<close> when \<open>t * g \<ge> n\<close>; every other index holds what
  it held before.
\<close>

lemma add_vectors_launch:
  fixes a b c :: "('a::plus) buffer"
  assumes "0 < t" "int t * int g \<le> 2 ^ 31"
    and "set ws = set (work_items g t)"
  shows "(\<forall>w \<in> set ws. 0 \<le> sint (global_id w) \<and>
            add_vectors a b c n w =
              (if sint (global_id w) < sint n
               then c(sint (global_id w) := a (sint (global_id w)) + b (sint (global_id w)))
               else c))
       \<and> (\<forall>i. launch ws a b c n i =
              (if 0 \<le> i \<and> i < sint n \<and> i < int t * int g then a i + b i else c i))
       \<and> (\<forall>i. \<not> (0 \<le> i \<and> i < sint n) \<longrightarrow> launch ws a b c n i = c i)
       \<and> (sint n \<le> int t * int g \<longrightarrow>
            (\<forall>i. 0 \<le> i \<and> i < sint n \<longrightarrow> launch ws a b c n i = a i + b i))"
proof -
  have ids: "\<And>i. (\<exists>w \<in> set ws. sint (global_id w) = i) \<longleftrightarrow> 0 \<le> i \<and> i < int t * int g"
    unfolding assms(3) by (rule work_items_ids [OF assms(1,2)])
  have per: "\<forall>w \<in> set ws. 0 \<le> sint (global_id w) \<and>
            add_vectors a b c n w =
              (if sint (global_id w) < sint n
               then c(sint (global_id w) := a (sint (global_id w)) + b (sint (global_id w)))
               else c)"
  proof
    fix w assume "w \<in> set ws"
    then have "\<exists>w' \<in> set ws. sint (global_id w') = sint (global_id w)" by blast
    then have "0 \<le> sint (global_id w)" unfolding ids by simp
    then show "0 \<le> sint (global_id w) \<and>
            add_vectors a b c n w =
              (if sint (global_id w) < sint n
               then c(sint (global_id w) := a (sint (global_id w)) + b (sint (global_id w)))
               else c)"
      by (simp add: add_vectors_def Let_def)
  qed
  have at: "\<And>i. launch ws a b c n i =
              (if 0 \<le> i \<and> i < sint n \<and> i < int t * int g then a i + b i else c i)"
  proof -
    fix i
    have "(\<exists>w \<in> set ws. sint (global_id w) = i \<and> i < sint n)
            \<longleftrightarrow> (0 \<le> i \<and> i < sint n \<and> i < int t * int g)"
      using ids [of i] by auto
    then show "launch ws a b c n i =
              (if 0 \<le> i \<and> i < sint n \<and> i < int t * int g then a i + b i else c i)"
      by (simp only: launch_at)
  qed
  have out: "\<forall>i. \<not> (0 \<le> i \<and> i < sint n) \<longrightarrow> launch ws a b c n i = c i"
    by (auto simp add: at)
  have cov: "sint n \<le> int t * int g \<longrightarrow>
            (\<forall>i. 0 \<le> i \<and> i < sint n \<longrightarrow> launch ws a b c n i = a i + b i)"
    by (auto simp add: at)
  show ?thesis using per at out cov by blast
qed

lemma add_vectors_launch_example:
  "(0::nat) < 256 \<and> int 256 * int 1 \<le> 2 ^ 31
   \<and> 0 \<le> sint (global_id \<lparr>blockDim_x = 256, blockIdx_x = 0, threadIdx_x = 2\<rparr>)
   \<and> add_vectors (\<lambda>i. i) (\<lambda>i. 10 * i) (\<lambda>i. - 1) 3
         \<lparr>blockDim_x = 256, blockIdx_x = 0, threadIdx_x = 2\<rparr> = (\<lambda>i. - 1 :: int)(2 := 22)
   \<and> add_vectors (\<lambda>i. i) (\<lambda>i. 10 * i) (\<lambda>i. - 1) 3
         \<lparr>blockDim_x = 256, blockIdx_x = 0, threadIdx_x = 3\<rparr> = (\<lambda>i. - 1 :: int)
   \<and> (\<forall>i. launch (work_items 1 256) (\<lambda>i. i) (\<lambda>i. 10 * i) (\<lambda>i. - 1) 3 i
            = (if 0 \<le> i \<and> i < 3 then 11 * i else (- 1 :: int)))"
proof -
  have h: "(0::nat) < 256" "int 256 * int 1 \<le> 2 ^ 31" by simp_all
  let ?ws = "work_items 1 256"
  have w2: "\<lparr>blockDim_x = 256, blockIdx_x = 0, threadIdx_x = 2\<rparr> \<in> set ?ws"
    by code_simp
  have w3: "\<lparr>blockDim_x = 256, blockIdx_x = 0, threadIdx_x = 3\<rparr> \<in> set ?ws"
    by code_simp
  have g2: "sint (global_id \<lparr>blockDim_x = 256, blockIdx_x = 0, threadIdx_x = 2\<rparr>) = 2"
    by (simp add: global_id_def)
  have g3: "sint (global_id \<lparr>blockDim_x = 256, blockIdx_x = 0, threadIdx_x = 3\<rparr>) = 3"
    by (simp add: global_id_def)
  note t = add_vectors_launch [OF h refl, of "\<lambda>i. i" "\<lambda>i. 10 * i" "\<lambda>i. - 1" 3]
  from t have per: "\<forall>w \<in> set ?ws. 0 \<le> sint (global_id w) \<and>
      add_vectors (\<lambda>i. i) (\<lambda>i. 10 * i) (\<lambda>i. - 1) 3 w =
        (if sint (global_id w) < sint (3 :: 32 word)
         then (\<lambda>i. - 1)(sint (global_id w) := sint (global_id w) + 10 * sint (global_id w))
         else (\<lambda>i. - 1))"
    by blast
  from t have all: "\<forall>i. launch ?ws (\<lambda>i. i) (\<lambda>i. 10 * i) (\<lambda>i. - 1) 3 i =
      (if 0 \<le> i \<and> i < sint (3 :: 32 word) \<and> i < int 256 * int 1 then i + 10 * i else - 1)"
    by blast
  show ?thesis
    using bspec [OF per w2] bspec [OF per w3] all
    by (simp add: g2 g3)
qed

text \<open>
  Claim C1.  The claim is that for every \<open>N > 0\<close> the launch leaves \<open>C[i] = A[i] + B[i]\<close>
  at every index of \<open>[0, N)\<close> and writes no other index.  At \<open>N = 2^25 + 1\<close> the launch
  of line 85 has \<open>131072\<close> groups of \<open>256\<close> work-items (see claim C2): it writes the sums
  at the indices \<open>0\<close> to \<open>2^25 - 1\<close>, and index \<open>2^25\<close>, the last of \<open>[0, N)\<close>, holds after
  the launch what it held before, as do the indices outside \<open>[0, N)\<close>.  Here
  \<open>A[i] = i\<close>, \<open>B[i] = 10 * i\<close> and \<open>C[i] = -1\<close> before the launch.
\<close>

theorem device_add_misses_last_index:
  "blk_in_grid 33554433 = 131072
   \<and> device_add 33554433 (\<lambda>i. i) (\<lambda>i. 10 * i) (\<lambda>i. - 1) 1 = (11 :: int)
   \<and> device_add 33554433 (\<lambda>i. i) (\<lambda>i. 10 * i) (\<lambda>i. - 1) 33554431 = (369098741 :: int)
   \<and> (0 :: int) \<le> 33554432 \<and> (33554432 :: int) < 33554433
   \<and> device_add 33554433 (\<lambda>i. i) (\<lambda>i. 10 * i) (\<lambda>i. - 1) 33554432 = (- 1 :: int)
   \<and> device_add 33554433 (\<lambda>i. i) (\<lambda>i. 10 * i) (\<lambda>i. - 1) 33554433 = (- 1 :: int)
   \<and> device_add 33554433 (\<lambda>i. i) (\<lambda>i. 10 * i) (\<lambda>i. - 1) (- 1) = (- 1 :: int)"
proof -
  have f: "float_of_ll 33554433 = 33554432"
    by (simp add: float_of_ll_def Let_def compute_bitlen)
  have b: "blk_in_grid 33554433 = 131072"
    by (simp add: f blk_in_grid_div)
  have h: "(0::int) < 33554433" "(33554433::int) < 2 ^ 31" by simp_all
  show ?thesis
    by (simp add: device_add_at [OF h] b thr_per_blk_def)
qed

subsection \<open>The execution configuration\<close>

text \<open>
  Claim C2.  The claim is that \<open>blk_in_grid = ceiling (N / 256)\<close> and
  \<open>256 * blk_in_grid \<ge> N\<close> for every \<open>N > 0\<close>.  The source computes the quotient from
  \<^verbatim>\<open>float(N)\<close>, which keeps 24 significant bits: at \<open>N = 2^25 + 1\<close> the conversion gives
  \<open>2^25\<close>, the grid has \<open>131072\<close> groups where \<open>131073\<close> are needed, and index \<open>2^25\<close> is
  reached by no work-item.
\<close>

theorem blk_in_grid_float_misses:
  "float_of_ll 33554433 = 33554432
   \<and> blk_in_grid 33554433 = 131072
   \<and> \<lceil>(33554433 :: rat) / 256\<rceil> = 131073
   \<and> thr_per_blk * blk_in_grid 33554433 < 33554433"
proof -
  have f: "float_of_ll 33554433 = 33554432"
    by (simp add: float_of_ll_def Let_def compute_bitlen)
  have c: "\<lceil>(33554433 :: rat) / 256\<rceil> = 131073"
    by (rule ceiling_unique) simp_all
  show ?thesis
    by (simp add: f c blk_in_grid_div thr_per_blk_def)
qed

subsection \<open>The length as a kernel argument\<close>

text \<open>
  Claim C10.  For every \<open>N\<close> with \<open>0 < N < 2^31\<close> the value the kernel receives in its
  \<open>int\<close> parameter is \<open>N\<close>, so the indices that pass the guard \<open>id < n\<close> are exactly
  those of \<open>[0, N)\<close>; the length of the source, \<open>256*1024*1024\<close>, is such an \<open>N\<close>.
\<close>

theorem kernel_argument_is_N:
  assumes "0 < N" "N < 2 ^ 31"
  shows "sint (int_of_ll N) = N
       \<and> {i. 0 \<le> i \<and> i < sint (int_of_ll N)} = {0..<N}
       \<and> 0 < N_ref \<and> N_ref < 2 ^ 31 \<and> sint (int_of_ll N_ref) = N_ref"
proof -
  have n: "sint (int_of_ll N) = N"
    using assms by (intro sint_int_of_ll) simp_all
  have h: "0 < N_ref" "N_ref < 2 ^ 31" by (simp_all add: N_ref_def)
  have r: "sint (int_of_ll N_ref) = N_ref"
    using h by (intro sint_int_of_ll) simp_all
  have s: "{i. 0 \<le> i \<and> i < N} = {0..<N}" by auto
  show ?thesis
    using h by (simp add: n r s)
qed

theorem kernel_argument_is_N_witness:
  "0 < N_ref \<and> N_ref < 2 ^ 31 \<and> sint (int_of_ll N_ref) = N_ref
   \<and> {i. 0 \<le> i \<and> i < sint (int_of_ll N_ref)} = {0..<N_ref}"
proof -
  have h: "0 < N_ref" "N_ref < 2 ^ 31" by (simp_all add: N_ref_def)
  show ?thesis using kernel_argument_is_N [OF h] h by blast
qed


subsection \<open>Verification and the reductions\<close>

text \<open>
  Claim C3, as stated: a process whose verification fails contributes to neither MAX
  reduction.  In the run \<open>env_inexact\<close> the verification fails, and the process has
  already contributed its device time: the first reduction (line 95) stands before the
  verification (lines 97 to 108).
\<close>

theorem failing_process_contributes_device_time:
  "tolerance env_inexact < relative_difference (snd (main env_inexact 2))
   \<and> fst (main env_inexact 2) = Exited 1
   \<and> MPI_Reduce_MAX_float (elapsed_ms env_inexact) \<in> set (trace (snd (main env_inexact 2)))"
  by code_simp

text \<open>
  Claim C3, amended.  In every run in which the verification is reached and the
  relative difference exceeds the tolerance, the process exits with status 1 after
  contributing its device time to the first MAX reduction, and contributes nothing to
  the wall-time MAX reduction.
\<close>

theorem failing_process_skips_wall_reduction:
  assumes "device_phase_ok env"
    and "tolerance env < relative_difference (snd (main env N))"
  shows "fst (main env N) = Exited 1
       \<and> MPI_Reduce_MAX_float (elapsed_ms env) \<in> set (trace (snd (main env N)))
       \<and> (\<forall>v. MPI_Reduce_MAX_double v \<notin> set (trace (snd (main env N))))
       \<and> last (trace (snd (main env N))) = Print_Test_failed (rank env)"
  by (simp add: main_verification_failed [OF assms])

theorem failing_process_skips_wall_reduction_witness:
  "device_phase_ok env_inexact
   \<and> tolerance env_inexact < relative_difference (snd (main env_inexact 2))
   \<and> fst (main env_inexact 2) = Exited 1
   \<and> MPI_Reduce_MAX_float (elapsed_ms env_inexact) \<in> set (trace (snd (main env_inexact 2)))
   \<and> (\<forall>v. MPI_Reduce_MAX_double v \<notin> set (trace (snd (main env_inexact 2))))
   \<and> last (trace (snd (main env_inexact 2))) = Print_Test_failed 0"
proof -
  have h1: "device_phase_ok env_inexact" by code_simp
  have h2: "tolerance env_inexact < relative_difference (snd (main env_inexact 2))"
    by code_simp
  have r: "rank env_inexact = 0" by code_simp
  show ?thesis
    using failing_process_skips_wall_reduction [OF h1 h2] h1 h2 by (simp add: r)
qed

subsection \<open>Device errors\<close>

text \<open>
  Claim C4.  The claim is that a failing device call ends the process with a non-zero
  status.  In the run \<open>env_oom\<close> the first \<open>hipMalloc\<close> returns \<open>hipErrorOutOfMemory\<close>:
  the process prints the line of the call and ends at once, with status \<open>0\<close>, the status
  of a normal completion.
\<close>

theorem hip_error_exits_with_zero:
  "hip_ret env_oom 69 = hipErrorOutOfMemory
   \<and> fst (main env_oom 2) = Exited 0
   \<and> trace (snd (main env_oom 2)) =
       [Print_ranks 3, Hip (hipMalloc d_A), Print_HIP_Error 69 hipErrorOutOfMemory]"
  by code_simp

subsection \<open>The verification\<close>

text \<open>
  Claim C5.  In every run that reaches the verification, with division by \<open>1.0\<close>
  exact (as it is for \<open>double\<close>): the array \<open>C\<close> verified is the one copied back from
  the device; the relative difference computed is \<open>|mean(C) - 1.0|\<close> in the words of the
  spec; the process ends with status 1 exactly when that value exceeds the \<open>double\<close> of
  the literal \<open>1.0e-14\<close>; otherwise its status is 0, and when the three \<open>hipFree\<close> calls
  succeed it runs to the end of \<open>main\<close> and returns 0.
\<close>

theorem verification_decides_exit:
  assumes "device_phase_ok env"
    and "\<forall>x. x / dbl_of_int env 1 = x"
  shows "(\<forall>i. 0 \<le> i \<and> i < N \<longrightarrow> h_C (snd (main env N)) i = dev (snd (main env N)) d_C i)
       \<and> result (snd (main env N)) = mean_spec env N (h_C (snd (main env N)))
       \<and> relative_difference (snd (main env N)) =
           relative_difference_spec env N (h_C (snd (main env N)))
       \<and> (fst (main env N) = Exited 1) =
           (dbl_of_lit env (1 / 10 ^ 14) < relative_difference_spec env N (h_C (snd (main env N))))
       \<and> (exit_status (fst (main env N)) = 1) =
           (dbl_of_lit env (1 / 10 ^ 14) < relative_difference_spec env N (h_C (snd (main env N))))
       \<and> (\<not> dbl_of_lit env (1 / 10 ^ 14) < relative_difference_spec env N (h_C (snd (main env N)))
            \<longrightarrow> exit_status (fst (main env N)) = 0)
       \<and> (\<not> dbl_of_lit env (1 / 10 ^ 14) < relative_difference_spec env N (h_C (snd (main env N)))
            \<and> cleanup_ok env
            \<longrightarrow> fst (main env N) = Returned 0 \<and> last (trace (snd (main env N))) = MPI_Finalize)"
proof -
  let ?s = "snd (main env N)"
  have copied: "\<forall>i. 0 \<le> i \<and> i < N \<longrightarrow> h_C ?s i = dev ?s d_C i"
    using main_host_C [OF assms(1)] by blast
  have res: "result ?s = mean_spec env N (h_C ?s)"
    by (simp add: main_verify_values(1) [OF assms(1)] mean_spec_def sum_loop_spec)
  have rd: "relative_difference ?s = relative_difference_spec env N (h_C ?s)"
    using main_verify_values(2) [OF assms(1), of N] assms(2)
    by (simp add: relative_difference_spec_def res)
  have tol: "tolerance env = dbl_of_lit env (1 / 10 ^ 14)"
    by (simp add: tolerance_def)
  have e1: "(fst (main env N) = Exited 1) =
      (dbl_of_lit env (1 / 10 ^ 14) < relative_difference_spec env N (h_C ?s))"
    using main_status(1) [OF assms(1), of N] by (simp only: tol rd)
  have st: "exit_status (fst (main env N)) =
      (if dbl_of_lit env (1 / 10 ^ 14) < relative_difference_spec env N (h_C ?s) then 1 else 0)"
    using main_status(2) [OF assms(1), of N] by (simp only: tol rd)
  have e2: "(exit_status (fst (main env N)) = 1) =
      (dbl_of_lit env (1 / 10 ^ 14) < relative_difference_spec env N (h_C ?s))"
    by (simp add: st)
  have e3: "\<not> dbl_of_lit env (1 / 10 ^ 14) < relative_difference_spec env N (h_C ?s)
      \<longrightarrow> exit_status (fst (main env N)) = 0"
    by (simp add: st)
  have e4: "\<not> dbl_of_lit env (1 / 10 ^ 14) < relative_difference_spec env N (h_C ?s)
      \<and> cleanup_ok env
      \<longrightarrow> fst (main env N) = Returned 0 \<and> last (trace ?s) = MPI_Finalize"
  proof
    assume a: "\<not> dbl_of_lit env (1 / 10 ^ 14) < relative_difference_spec env N (h_C ?s)
      \<and> cleanup_ok env"
    then have n: "\<not> tolerance env < relative_difference ?s" by (simp add: tol rd)
    from a have c: "cleanup_ok env" by blast
    show "fst (main env N) = Returned 0 \<and> last (trace ?s) = MPI_Finalize"
      using main_success(1,2) [OF assms(1) c n] by simp
  qed
  show ?thesis using copied res rd e1 e2 e3 e4 by blast
qed

theorem verification_decides_exit_witness:
  "device_phase_ok env_above \<and> (\<forall>x. x / dbl_of_int env_above 1 = x)
   \<and> dbl_of_lit env_above (1 / 10 ^ 14) = 1 / 10 ^ 14
   \<and> h_C (snd (main env_above 2)) 0 \<noteq> h_C (snd (main env_above 2)) 1
   \<and> relative_difference (snd (main env_above 2)) =
       \<bar>(h_C (snd (main env_above 2)) 0 + h_C (snd (main env_above 2)) 1) / 2 - 1\<bar>
   \<and> 1 / 10 ^ 14 < relative_difference (snd (main env_above 2))
   \<and> relative_difference (snd (main env_above 2)) < 1 / 10 ^ 13
   \<and> fst (main env_above 2) = Exited 1
   \<and> device_phase_ok env_below \<and> (\<forall>x. x / dbl_of_int env_below 1 = x) \<and> cleanup_ok env_below
   \<and> relative_difference (snd (main env_below 2)) =
       \<bar>(h_C (snd (main env_below 2)) 0 + h_C (snd (main env_below 2)) 1) / 2 - 1\<bar>
   \<and> 1 / 10 ^ 15 < relative_difference (snd (main env_below 2))
   \<and> relative_difference (snd (main env_below 2)) < 1 / 10 ^ 14
   \<and> fst (main env_below 2) = Returned 0
   \<and> last (trace (snd (main env_below 2))) = MPI_Finalize"
proof -
  let ?A = "h_C (snd (main env_above 2))"
  let ?B = "h_C (snd (main env_below 2))"
  have a1: "device_phase_ok env_above"
    by (simp add: device_phase_ok_def env_above_def env_ok_def)
  have a2: "\<forall>x. x / dbl_of_int env_above 1 = x" by (simp add: env_above_def env_ok_def)
  have a3: "dbl_of_lit env_above (1 / 10 ^ 14) = 1 / 10 ^ 14"
    by (simp add: env_above_def env_ok_def)
  have A0: "?A 0 = 2475426765974430643586811497 / 2475426765974642859391451138"
    by code_simp
  have A1: "?A 1 = 11139420446884816773439728397 / 11139420446885892867261530121"
    by code_simp
  have a4: "?A 0 \<noteq> ?A 1" by (simp add: A0 A1)
  have a5: "relative_difference_spec env_above 2 ?A = \<bar>(?A 0 + ?A 1) / 2 - 1\<bar>"
    by (simp add: relative_difference_spec_def mean_spec_def numeral_2_eq_2 env_above_def env_ok_def)
  have a6: "1 / 10 ^ 14 < \<bar>(?A 0 + ?A 1) / 2 - 1\<bar>" "\<bar>(?A 0 + ?A 1) / 2 - 1\<bar> < 1 / 10 ^ 13"
    by (simp_all add: A0 A1)
  have b1: "device_phase_ok env_below"
    by (simp add: device_phase_ok_def env_below_def env_ok_def)
  have b2: "\<forall>x. x / dbl_of_int env_below 1 = x" by (simp add: env_below_def env_ok_def)
  have b3: "dbl_of_lit env_below (1 / 10 ^ 14) = 1 / 10 ^ 14"
    by (simp add: env_below_def env_ok_def)
  have b4: "cleanup_ok env_below"
    by (simp add: cleanup_ok_def env_below_def env_ok_def)
  have B0: "?B 0 = 2475426765974633800248395513 / 2475426765974642859391451138"
    by code_simp
  have B1: "?B 1 = 11139420446885840093928767497 / 11139420446885892867261530121"
    by code_simp
  have b5: "relative_difference_spec env_below 2 ?B = \<bar>(?B 0 + ?B 1) / 2 - 1\<bar>"
    by (simp add: relative_difference_spec_def mean_spec_def numeral_2_eq_2 env_below_def env_ok_def)
  have b6: "1 / 10 ^ 15 < \<bar>(?B 0 + ?B 1) / 2 - 1\<bar>" "\<bar>(?B 0 + ?B 1) / 2 - 1\<bar> < 1 / 10 ^ 14"
    by (simp_all add: B0 B1)
  note ta = verification_decides_exit [OF a1 a2, of 2, unfolded a3 a5]
  note tb = verification_decides_exit [OF b1 b2, of 2, unfolded b3 b5]
  have ra: "relative_difference (snd (main env_above 2)) = \<bar>(?A 0 + ?A 1) / 2 - 1\<bar>"
    using ta by blast
  have xa: "fst (main env_above 2) = Exited 1"
    using ta a6(1) by blast
  have rb: "relative_difference (snd (main env_below 2)) = \<bar>(?B 0 + ?B 1) / 2 - 1\<bar>"
    using tb by blast
  have nb: "\<not> 1 / 10 ^ 14 < \<bar>(?B 0 + ?B 1) / 2 - 1\<bar>"
    using b6(2) by simp
  have xb: "fst (main env_below 2) = Returned 0 \<and> last (trace (snd (main env_below 2))) = MPI_Finalize"
    using tb nb b4 by blast
  show ?thesis
    unfolding ra rb
    using a1 a2 a3 a4 a6 b1 b2 b4 b6 xa xb by (intro conjI) blast+
qed

subsection \<open>The report\<close>

text \<open>
  Claim C6.  The claim is that the coordinator reports the two maxima in seconds.  In
  the run \<open>env_ok\<close> the device times of the group are 5, 7 and 3 milliseconds and the
  wall times 2, 3 and 1 seconds (\<open>MPI_Wtime\<close> counts seconds).  The report gives
  \<open>7 / 1000\<close> for the device time, which is its maximum in seconds, and \<open>3 / 1000\<close> for
  the wall time, whose maximum is 3 seconds: line 130 divides by \<open>1000.0\<close> as line 129
  does.
\<close>

theorem report_divides_wall_time_by_1000:
  "MPI_MAX (elapsed_ms env_ok) (peers_gpu env_ok) = 7
   \<and> MPI_MAX (wtime_end env_ok - wtime_start env_ok) (peers_wall env_ok) = 3
   \<and> fst (main env_ok 2) = Returned 0
   \<and> Print_report 1 0 (1 / 10 ^ 14) 16 (7 / 1000) (3 / 1000) \<in> set (trace (snd (main env_ok 2)))"
  by code_simp


subsection \<open>Seeding, in exact arithmetic\<close>

text \<open>
  Claim C7.  With real numbers for \<open>double\<close> and the real sine and cosine, seeding sets
  \<open>A[i] = sin(r_i)^2\<close>, \<open>B[i] = cos(r_i)^2\<close> for the same \<open>r_i\<close> and \<open>C[i] = 0\<close> at every
  index \<open>i\<close> of \<open>[0, N)\<close>, so \<open>A[i] + B[i] = 1\<close>; and when the grid covers \<open>[0, N)\<close>,
  every \<open>C[i]\<close> is \<open>1\<close> after the addition and the copy back, the mean is exactly \<open>1\<close> and
  the relative difference is \<open>0\<close>.
\<close>

theorem seeding_sums_to_one:
  fixes env :: "real env"
  assumes "0 < N" "N < 2 ^ 31" "N \<le> thr_per_blk * blk_in_grid N"
    and "sin_d env = sin" "cos_d env = cos" "dbl_of_int env = of_int"
    and "device_phase_ok env"
  shows "(\<forall>i. 0 \<le> i \<and> i < N \<longrightarrow>
            h_A (seed env N s) i = (sin (random_value env (nat i)))\<^sup>2
          \<and> h_B (seed env N s) i = (cos (random_value env (nat i)))\<^sup>2
          \<and> h_C (seed env N s) i = 0
          \<and> h_A (seed env N s) i + h_B (seed env N s) i = 1)
       \<and> (\<forall>i. 0 \<le> i \<and> i < N \<longrightarrow> h_C (snd (main env N)) i = 1)
       \<and> result (snd (main env N)) = 1
       \<and> relative_difference (snd (main env N)) = 0"
proof -
  have seeded: "\<forall>i. 0 \<le> i \<and> i < N \<longrightarrow>
            h_A (seed env N s) i = (sin (random_value env (nat i)))\<^sup>2
          \<and> h_B (seed env N s) i = (cos (random_value env (nat i)))\<^sup>2
          \<and> h_C (seed env N s) i = 0
          \<and> h_A (seed env N s) i + h_B (seed env N s) i = 1"
    by (simp add: seed_eq assms(4,5,6) power2_eq_square [symmetric])
  have ones: "\<forall>i. 0 \<le> i \<and> i < N \<longrightarrow> h_C (snd (main env N)) i = 1"
  proof (intro allI impI)
    fix i assume i: "0 \<le> i \<and> i < N"
    then have "i < thr_per_blk * blk_in_grid N" using assms(3) by simp
    then show "h_C (snd (main env N)) i = 1"
      using i
      by (simp add: main_verify_values(3) [OF assms(7)] memcpy_def
          device_add_at [OF assms(1,2)] assms(4,5) power2_eq_square [symmetric])
  qed
  have "sum_loop env N (h_C (snd (main env N))) = of_int N"
    using assms(1) ones by (intro sum_loop_ones [OF assms(6)]) simp_all
  then have res: "result (snd (main env N)) = 1"
    using assms(1) by (simp add: main_verify_values(1) [OF assms(7)] assms(6))
  have "relative_difference (snd (main env N)) = 0"
    by (simp add: main_verify_values(2) [OF assms(7)] res assms(6))
  then show ?thesis using seeded ones res by blast
qed

theorem seeding_sums_to_one_witness:
  "(0::int) < 3 \<and> (3::int) < 2 ^ 31 \<and> 3 \<le> thr_per_blk * blk_in_grid 3
   \<and> sin_d env_exact = sin \<and> cos_d env_exact = cos \<and> dbl_of_int env_exact = of_int
   \<and> device_phase_ok env_exact
   \<and> h_A (seed env_exact 3 (init_state env_exact)) 1 = (sin (1 / 2147483647))\<^sup>2
   \<and> h_B (seed env_exact 3 (init_state env_exact)) 1 = (cos (1 / 2147483647))\<^sup>2
   \<and> h_C (seed env_exact 3 (init_state env_exact)) 1 = 0
   \<and> h_A (seed env_exact 3 (init_state env_exact)) 1 + h_B (seed env_exact 3 (init_state env_exact)) 1 = 1
   \<and> h_C (snd (main env_exact 3)) 1 = 1
   \<and> result (snd (main env_exact 3)) = 1
   \<and> relative_difference (snd (main env_exact 3)) = 0"
proof -
  have h1: "(0::int) < 3" and h2: "(3::int) < 2 ^ 31" by simp_all
  have h3: "3 \<le> thr_per_blk * blk_in_grid 3"
    by (simp add: blk_in_grid_div float_of_ll_def Let_def compute_bitlen thr_per_blk_def)
  have h4: "sin_d env_exact = sin" and h5: "cos_d env_exact = cos"
    and h6: "dbl_of_int env_exact = of_int"
    by (simp_all add: env_exact_def)
  have h7: "device_phase_ok env_exact"
    by (simp add: device_phase_ok_def env_exact_def)
  have r: "random_value env_exact (nat 1) = 1 / 2147483647"
    by (simp add: random_value_def env_exact_def)
  note t = seeding_sums_to_one [OF h1 h2 h3 h4 h5 h6 h7, of "init_state env_exact"]
  from t have a: "h_A (seed env_exact 3 (init_state env_exact)) 1 = (sin (random_value env_exact (nat 1)))\<^sup>2
          \<and> h_B (seed env_exact 3 (init_state env_exact)) 1 = (cos (random_value env_exact (nat 1)))\<^sup>2
          \<and> h_C (seed env_exact 3 (init_state env_exact)) 1 = 0
          \<and> h_A (seed env_exact 3 (init_state env_exact)) 1 + h_B (seed env_exact 3 (init_state env_exact)) 1 = 1"
    by simp
  from t have b: "h_C (snd (main env_exact 3)) 1 = 1" by simp
  from t have c: "result (snd (main env_exact 3)) = 1 \<and> relative_difference (snd (main env_exact 3)) = 0"
    by blast
  show ?thesis
    using a b c h3 h4 h5 h6 h7 unfolding r by simp
qed

subsection \<open>The MAX reductions\<close>

text \<open>
  Claim C8.  At the coordinator, for every list of contributions of its peers, the
  result of the MAX reduction of the device times is at least the device time of every
  participant, and the result of the MAX reduction of the wall times is at least the
  wall time of every participant.  (Times are ordered linearly.)
\<close>

theorem reductions_dominate:
  fixes env :: "('d::{linorder,minus}) env"
  assumes "rank env = 0"
  shows "max_gpu_time (reduce_gpu env s) = Some (MPI_MAX (milliseconds s) (peers_gpu env))
       \<and> (\<forall>v \<in> set (milliseconds s # peers_gpu env). v \<le> MPI_MAX (milliseconds s) (peers_gpu env))
       \<and> total_time_max (reduce_wall env s) =
           Some (MPI_MAX (wtime_end env - wtime_start env) (peers_wall env))
       \<and> (\<forall>v \<in> set ((wtime_end env - wtime_start env) # peers_wall env).
            v \<le> MPI_MAX (wtime_end env - wtime_start env) (peers_wall env))"
  using assms
  by (auto simp add: reduce_gpu_def reduce_wall_def MPI_Reduce_def emit_def Let_def
      MPI_MAX_ge_first MPI_MAX_ge_peers)

theorem reductions_dominate_witness:
  "rank env_ok = 0
   \<and> max_gpu_time (reduce_gpu env_ok ((init_state env_ok)\<lparr>milliseconds := 5\<rparr>)) = Some 7
   \<and> (5::rat) \<le> 7 \<and> (7::rat) \<le> 7 \<and> (3::rat) \<le> 7
   \<and> total_time_max (reduce_wall env_ok (init_state env_ok)) = Some 3
   \<and> (2::rat) \<le> 3 \<and> (3::rat) \<le> 3 \<and> (1::rat) \<le> 3"
proof -
  have h: "rank env_ok = 0" by (simp add: env_ok_def)
  have g: "MPI_MAX (5::rat) (peers_gpu env_ok) = 7" by (simp add: env_ok_def)
  have w: "MPI_MAX (wtime_end env_ok - wtime_start env_ok) (peers_wall env_ok) = 3"
    by (simp add: env_ok_def)
  show ?thesis
    using reductions_dominate [OF h, of "(init_state env_ok)\<lparr>milliseconds := 5\<rparr>"]
      reductions_dominate [OF h, of "init_state env_ok"] h
    by (simp add: g w)
qed

subsection \<open>Release of device resources\<close>

text \<open>
  Claim C9, as stated: on the successful path the program releases the three device
  buffers and destroys both timestamp markers before it ends.  The run \<open>env_ok\<close> is
  successful; at its end both markers are live, and \<open>hipEventDestroy\<close> has not been
  called: the source has no call of it.
\<close>

theorem markers_live_at_exit:
  "fst (main env_ok 2) = Returned 0
   \<and> markers (snd (main env_ok 2)) = {ev_start, ev_end}
   \<and> Hip (hipEventDestroy ev_start) \<notin> set (trace (snd (main env_ok 2)))
   \<and> Hip (hipEventDestroy ev_end) \<notin> set (trace (snd (main env_ok 2)))"
  by code_simp

text \<open>
  Claim C9, amended.  On the successful path (every device call succeeds and the
  verification passes) the program, after the device-to-host copy of \<open>C\<close> and the first
  reduction, releases the three device buffers \<open>d_A\<close>, \<open>d_B\<close>, \<open>d_C\<close> and returns 0 with
  no device buffer allocated; the two timestamp markers are never destroyed and are
  live when the process ends.
\<close>

theorem successful_run_releases_buffers:
  assumes "device_phase_ok env" "cleanup_ok env"
    and "\<not> tolerance env < relative_difference (snd (main env N))"
  shows "fst (main env N) = Returned 0
       \<and> allocated (snd (main env N)) = {}
       \<and> (\<exists>pre post. trace (snd (main env N)) =
            pre @ [Hip (hipMemcpyDeviceToHost d_C), MPI_Reduce_MAX_float (elapsed_ms env),
                   Hip (hipFree d_A), Hip (hipFree d_B), Hip (hipFree d_C)] @ post)
       \<and> markers (snd (main env N)) = {ev_start, ev_end}
       \<and> (\<forall>e. Hip (hipEventDestroy e) \<notin> set (trace (snd (main env N))))"
proof -
  let ?pre = "(if rank env = 0 then [Print_ranks (mpi_size env)] else []) @
      [Hip (hipMalloc d_A), Hip (hipMalloc d_B), Hip (hipMalloc d_C),
       Hip (hipMemcpyHostToDevice d_A), Hip (hipMemcpyHostToDevice d_B),
       Hip (hipEventCreate ev_start), Hip (hipEventCreate ev_end),
       Hip (hipEventRecord ev_start), Hip hipLaunchKernelGGL, Hip (hipEventRecord ev_end),
       Hip (hipEventSynchronize ev_end), Hip hipEventElapsedTime]"
  let ?post = "[Free_host, MPI_Reduce_MAX_double (wtime_end env - wtime_start env)] @
      (if rank env = 0
       then [Print_report (result (snd (main env N))) (relative_difference (snd (main env N)))
               (tolerance env) (N * 8)
               (MPI_MAX (elapsed_ms env) (peers_gpu env) / dbl_of_int env 1000)
               (MPI_MAX (wtime_end env - wtime_start env) (peers_wall env) / dbl_of_int env 1000)]
       else []) @
      [MPI_Finalize]"
  note m = main_success [OF assms]
  have "trace (snd (main env N)) =
          ?pre @ [Hip (hipMemcpyDeviceToHost d_C), MPI_Reduce_MAX_float (elapsed_ms env),
                  Hip (hipFree d_A), Hip (hipFree d_B), Hip (hipFree d_C)] @ ?post"
    by (simp add: m(2))
  then have ex: "\<exists>pre post. trace (snd (main env N)) =
            pre @ [Hip (hipMemcpyDeviceToHost d_C), MPI_Reduce_MAX_float (elapsed_ms env),
                   Hip (hipFree d_A), Hip (hipFree d_B), Hip (hipFree d_C)] @ post"
    by blast
  have nd: "\<forall>e. Hip (hipEventDestroy e) \<notin> set (trace (snd (main env N)))"
    by (simp add: m(2))
  show ?thesis using m(1,3,4) ex nd by blast
qed

theorem successful_run_releases_buffers_witness:
  "device_phase_ok env_ok \<and> cleanup_ok env_ok
   \<and> \<not> tolerance env_ok < relative_difference (snd (main env_ok 2))
   \<and> fst (main env_ok 2) = Returned 0
   \<and> allocated (snd (main env_ok 2)) = {}
   \<and> (\<exists>pre post. trace (snd (main env_ok 2)) =
        pre @ [Hip (hipMemcpyDeviceToHost d_C), MPI_Reduce_MAX_float (elapsed_ms env_ok),
               Hip (hipFree d_A), Hip (hipFree d_B), Hip (hipFree d_C)] @ post)
   \<and> markers (snd (main env_ok 2)) = {ev_start, ev_end}"
proof -
  have h1: "device_phase_ok env_ok" by code_simp
  have h2: "cleanup_ok env_ok" by code_simp
  have h3: "\<not> tolerance env_ok < relative_difference (snd (main env_ok 2))" by code_simp
  show ?thesis
    using successful_run_releases_buffers [OF h1 h2 h3] h1 h2 h3 by blast
qed


end
